theory Spec2Isabelle
  imports Main
begin

section \<open>Text\<close>

text \<open>
  A Python \<open>str\<close> is a sequence of Unicode code points. Generated posts are Korean, so
  content-bearing strings are modelled as lists of code points (\<open>str\<close>); identifiers
  that the code compares with ASCII literals (mode, event names, exception class names,
  URLs) are plain \<open>string\<close>s. \<open>ascii\<close> reads an ASCII literal as a \<open>str\<close>.
\<close>

type_synonym str = "nat list"

definition ascii :: "string \<Rightarrow> str" where
  "ascii s = map of_char s"

text \<open>
  The whitespace class of \<open>\s\<close> in a \<open>str\<close> pattern and of \<open>str.strip()\<close> is the same
  one (CPython tests both with its Unicode whitespace table): the code points below.
\<close>

definition is_space :: "nat \<Rightarrow> bool" where
  "is_space c \<longleftrightarrow>
     (0x09 \<le> c \<and> c \<le> 0x0D) \<or> (0x1C \<le> c \<and> c \<le> 0x20) \<or> c = 0x85 \<or> c = 0xA0 \<or>
     c = 0x1680 \<or> (0x2000 \<le> c \<and> c \<le> 0x200A) \<or> c = 0x2028 \<or> c = 0x2029 \<or>
     c = 0x202F \<or> c = 0x205F \<or> c = 0x3000"

abbreviation COLON :: nat where "COLON \<equiv> 0x3A"
abbreviation LBRACKET :: nat where "LBRACKET \<equiv> 0x5B"
abbreviation RBRACKET :: nat where "RBRACKET \<equiv> 0x5D"
abbreviation NEWLINE :: nat where "NEWLINE \<equiv> 0x0A"
abbreviation SPACE :: nat where "SPACE \<equiv> 0x20"

section \<open>BotPostsService.clean_response\<close>

text \<open>
  Lines 31-32: \<open>if ':' in text: text = text.split(':', 1)[1]\<close>. With \<open>maxsplit = 1\<close> the
  second piece is everything after the first colon.
\<close>

definition split_first_colon :: "str \<Rightarrow> str" where
  "split_first_colon t =
     (if COLON \<in> set t then tl (dropWhile (\<lambda>c. c \<noteq> COLON) t) else t)"

text \<open>
  Line 34: \<open>re.sub(r'\[.*?\]', '', text)\<close>. A match starts at a \<open>[\<close>; the lazy \<open>.*?\<close>
  stops at the first \<open>]\<close> that follows, and \<open>.\<close> (no DOTALL flag) does not match a
  newline, so a newline before that \<open>]\<close> makes the attempt at this \<open>[\<close> fail.
  \<open>bracket_end cs\<close> is the text after the closing bracket when the attempt succeeds on
  the text \<open>cs\<close> that follows the \<open>[\<close>. Matches are found left to right and do not
  overlap; a character at which no match starts is kept.
\<close>

fun bracket_end :: "str \<Rightarrow> str option" where
  "bracket_end [] = None"
| "bracket_end (c # cs) =
     (if c = RBRACKET then Some cs
      else if c = NEWLINE then None
      else bracket_end cs)"

lemma bracket_end_length: "bracket_end cs = Some r \<Longrightarrow> length r < length cs"
  by (induction cs) (auto split: if_splits)

function sub_brackets :: "str \<Rightarrow> str" where
  "sub_brackets [] = []"
| "sub_brackets (c # cs) =
     (if c = LBRACKET then
        (case bracket_end cs of
           Some r \<Rightarrow> sub_brackets r
         | None \<Rightarrow> c # sub_brackets cs)
      else c # sub_brackets cs)"
  by pat_completeness auto
termination
  by (relation "measure length") (auto dest: bracket_end_length)

text \<open>
  Line 36: \<open>re.sub(r'\s+', ' ', text)\<close>: every maximal run of whitespace becomes one
  space.
\<close>

function sub_spaces :: "str \<Rightarrow> str" where
  "sub_spaces [] = []"
| "sub_spaces (c # cs) =
     (if is_space c then SPACE # sub_spaces (dropWhile is_space cs)
      else c # sub_spaces cs)"
  by pat_completeness auto
termination
  by (relation "measure length") (auto simp: less_Suc_eq_le length_dropWhile_le)

text \<open>Line 37: \<open>text.strip()\<close> removes leading and trailing whitespace.\<close>

definition strip :: "str \<Rightarrow> str" where
  "strip t = rev (dropWhile is_space (rev (dropWhile is_space t)))"

definition clean_response :: "str \<Rightarrow> str" where
  "clean_response t = strip (sub_spaces (sub_brackets (split_first_colon t)))"

section \<open>Python values and exceptions\<close>

text \<open>
  A parsed JSON body, and any value that can sit in a result dict. A dict is an
  association list with distinct keys; a float is carried as its literal, since the code
  never computes with one.
\<close>

datatype json =
    JNull
  | JBool bool
  | JInt int
  | JFloat string
  | JStr str
  | JArr "json list"
  | JObj "(str \<times> json) list"

text \<open>
  An instance of a subclass of \<open>Exception\<close>: its class name and \<open>str(e)\<close>. Exits that
  are not \<open>Exception\<close>s (interpreter shutdown, task cancellation) pass every handler of
  this code and are not modelled. The messages of the built-in errors below are those of
  CPython 3.11.
\<close>

datatype pyexc = PyExc (exc_class: string) (exc_str: str)

abbreviation QUOTE :: nat where "QUOTE \<equiv> 0x27"

fun type_name :: "json \<Rightarrow> string" where
  "type_name JNull = ''NoneType''"
| "type_name (JBool _) = ''bool''"
| "type_name (JInt _) = ''int''"
| "type_name (JFloat _) = ''float''"
| "type_name (JStr _) = ''str''"
| "type_name (JArr _) = ''list''"
| "type_name (JObj _) = ''dict''"

definition not_subscriptable :: "json \<Rightarrow> pyexc" where
  "not_subscriptable v =
     PyExc ''TypeError'' (QUOTE # ascii (type_name v) @ QUOTE # ascii '' object is not subscriptable'')"

text \<open>\<open>v[k]\<close> for a string literal \<open>k\<close>.\<close>

fun subscript_key :: "json \<Rightarrow> string \<Rightarrow> pyexc + json" where
  "subscript_key (JObj kvs) k =
     (case map_of kvs (ascii k) of
        Some v \<Rightarrow> Inr v
      | None \<Rightarrow> Inl (PyExc ''KeyError'' (QUOTE # ascii k @ [QUOTE])))"
| "subscript_key (JArr xs) k =
     Inl (PyExc ''TypeError'' (ascii ''list indices must be integers or slices, not str''))"
| "subscript_key (JStr s) k =
     Inl (PyExc ''TypeError''
            (ascii ''string indices must be integers, not '' @ QUOTE # ascii ''str'' @ [QUOTE]))"
| "subscript_key v k = Inl (not_subscriptable v)"

text \<open>\<open>v[0]\<close>.\<close>

fun subscript_0 :: "json \<Rightarrow> pyexc + json" where
  "subscript_0 (JArr []) = Inl (PyExc ''IndexError'' (ascii ''list index out of range''))"
| "subscript_0 (JArr (x # xs)) = Inr x"
| "subscript_0 (JStr []) = Inl (PyExc ''IndexError'' (ascii ''string index out of range''))"
| "subscript_0 (JStr (c # cs)) = Inr (JStr [c])"
| "subscript_0 (JObj kvs) = Inl (PyExc ''KeyError'' (ascii ''0''))"
| "subscript_0 v = Inl (not_subscriptable v)"

section \<open>KoalphaLoader.get_response\<close>

text \<open>
  The dict that \<open>get_response\<close> returns; a key the code leaves out is \<open>None\<close> here.
\<close>

record inference_result =
  status_code :: int
  url :: string
  headers :: "(string \<times> string) list option"
  content :: "json option"
  error :: "json option"

text \<open>
  The outcome of \<open>response.json()\<close>: the parsed body, an exception that is an instance
  of \<open>ValueError\<close> (the JSON decode error of a body that is not JSON; what line 53
  catches), or any other exception (a \<open>RecursionError\<close> on a deeply nested body).
\<close>

datatype json_outcome =
    Parsed json
  | RaisesValueError pyexc
  | RaisesOther pyexc

text \<open>What the code reads of a \<open>requests\<close> response.\<close>

record http_response =
  resp_status :: int
  resp_url :: string
  resp_headers :: "(string \<times> string) list"
  resp_json :: json_outcome
  resp_text :: str

text \<open>
  The libraries the loader calls, each as the outcome of the call (\<open>Inl\<close>: it raises):
  \<^item> \<open>base_url\<close>: \<open>load_dotenv(override=True)\<close> followed by
    \<open>os.getenv('MODEL_NGROK_URL')\<close>, at every call;
  \<^item> \<open>post url messages\<close>: \<open>requests.post(url, headers=self.headers, json=self.data)\<close>
    after \<open>self.data["messages"] = messages\<close> (the other fields of the payload and the
    headers are constants set in \<open>__init__\<close>);
  \<^item> \<open>chat_template messages\<close>: \<open>AutoTokenizer.from_pretrained\<close> followed by
    \<open>apply_chat_template\<close>;
  \<^item> \<open>generate prompt\<close>: \<open>self.model_vllm.generate(text_prompt, self.sampling_params)\<close>,
    as the \<open>text\<close> of each completion of each request output;
  \<^item> \<open>stdout_line s\<close>: writing the line \<open>s\<close>, which has a code point outside ASCII, to
    the standard output, whose encoding may refuse it.
\<close>

record 'm libraries =
  base_url :: "pyexc + string option"
  post :: "string \<Rightarrow> 'm \<Rightarrow> pyexc + http_response"
  chat_template :: "'m \<Rightarrow> pyexc + str"
  generate :: "str \<Rightarrow> pyexc + str list list"
  stdout_line :: "str \<Rightarrow> pyexc option"

text \<open>
  \<open>print\<close> of a line: the standard output is taken to be open and to encode ASCII, as
  every encoding that Python uses for it does, so a line of ASCII is written; the outcome
  for any other line is that of the output. The lines with the response times (lines 49
  and 97) are ASCII and are left out.
\<close>

definition ascii_only :: "str \<Rightarrow> bool" where
  "ascii_only s = list_all (\<lambda>c. c < 0x80) s"

definition print_line :: "'m libraries \<Rightarrow> str \<Rightarrow> pyexc option" where
  "print_line lib s = (if ascii_only s then None else stdout_line lib s)"

text \<open>Line 65: \<open>body["choices"][0]["message"]["content"]\<close>.\<close>

definition first_choice_content :: "json \<Rightarrow> pyexc + json" where
  "first_choice_content body =
     (case subscript_key body ''choices'' of
        Inl e \<Rightarrow> Inl e
      | Inr choices \<Rightarrow>
          (case subscript_0 choices of
             Inl e \<Rightarrow> Inl e
           | Inr choice \<Rightarrow>
               (case subscript_key choice ''message'' of
                  Inl e \<Rightarrow> Inl e
                | Inr message \<Rightarrow> subscript_key message ''content'')))"

text \<open>Line 45: \<open>f"{base_url}/v1/chat/completions"\<close>; the f-string prints an unset
  \<open>base_url\<close> as \<open>None\<close>.\<close>

definition completions_url :: "string option \<Rightarrow> string" where
  "completions_url b = (case b of Some u \<Rightarrow> u | None \<Rightarrow> ''None'') @ ''/v1/chat/completions''"

text \<open>
  Lines 40-66, the branch \<open>self.mode == "colab"\<close>. Lines 55-60 build the result of a
  response whose status is not 200; \<open>error_body\<close> is the parsed body, or the text of the
  response when parsing raised a \<open>ValueError\<close>. \<open>after_post\<close> is lines 47-66, on the
  outcome of \<open>requests.post\<close>.
\<close>

definition error_result :: "http_response \<Rightarrow> json \<Rightarrow> inference_result" where
  "error_result response error_body =
     \<lparr>status_code = resp_status response, url = resp_url response,
      headers = Some (resp_headers response), content = None, error = Some error_body\<rparr>"

definition after_post ::
  "pyexc + http_response \<Rightarrow> pyexc + inference_result option" where
  "after_post posted =
     (case posted of
        Inl e \<Rightarrow> Inl e
      | Inr response \<Rightarrow>
          if resp_status response \<noteq> 200 then
            (case resp_json response of
               Parsed j \<Rightarrow> Inr (Some (error_result response j))
             | RaisesValueError e \<Rightarrow> Inr (Some (error_result response (JStr (resp_text response))))
             | RaisesOther e \<Rightarrow> Inl e)
          else
            (case resp_json response of
               RaisesValueError e \<Rightarrow> Inl e
             | RaisesOther e \<Rightarrow> Inl e
             | Parsed body \<Rightarrow>
                 (case first_choice_content body of
                    Inl e \<Rightarrow> Inl e
                  | Inr c \<Rightarrow>
                      Inr (Some \<lparr>status_code = resp_status response, url = resp_url response,
                                 headers = None, content = Some c, error = None\<rparr>))))"

definition get_response_colab :: "'m libraries \<Rightarrow> 'm \<Rightarrow> pyexc + inference_result option" where
  "get_response_colab lib messages =
     (case base_url lib of
        Inl e \<Rightarrow> Inl e
      | Inr b \<Rightarrow> after_post (post lib (completions_url b) messages))"

text \<open>Lines 85-95: the \<open>try\<close> block of the local branch and its handler. Line 87,
  \<open>outputs[0].outputs[0].text\<close>, raises \<open>IndexError\<close> inside the block on an empty list.\<close>

definition first_output_text :: "str list list \<Rightarrow> pyexc + str" where
  "first_output_text outputs =
     (case outputs of
        [] \<Rightarrow> Inl (PyExc ''IndexError'' (ascii ''list index out of range''))
      | out # _ \<Rightarrow>
          (case out of
             [] \<Rightarrow> Inl (PyExc ''IndexError'' (ascii ''list index out of range''))
           | t # _ \<Rightarrow> Inr t))"

definition local_failure :: "pyexc \<Rightarrow> inference_result" where
  "local_failure e =
     \<lparr>status_code = 500, url = ''local_vllm'', headers = None, content = None,
      error = Some (JStr (exc_str e))\<rparr>"

text \<open>
  Lines 67-103, the branch \<open>self.mode == "gcp"\<close>: the tokenizer and the chat template
  run before the \<open>try\<close>. The handler prints the exception (line 90) before it returns the
  result; an exception of that \<open>print\<close> leaves the handler.
\<close>

definition get_response_gcp :: "'m libraries \<Rightarrow> 'm \<Rightarrow> pyexc + inference_result option" where
  "get_response_gcp lib messages =
     (case chat_template lib messages of
        Inl e \<Rightarrow> Inl e
      | Inr text_prompt \<Rightarrow>
          (case (case generate lib text_prompt of
                   Inl e \<Rightarrow> Inl e
                 | Inr outputs \<Rightarrow> first_output_text outputs) of
             Inl e \<Rightarrow>
               (case print_line lib (ascii ''ChatCompletion error: '' @ exc_str e) of
                  Some e' \<Rightarrow> Inl e'
                | None \<Rightarrow> Inr (Some (local_failure e)))
           | Inr c \<Rightarrow>
               Inr (Some \<lparr>status_code = 200, url = ''local_vllm'', headers = None,
                          content = Some (JStr c), error = None\<rparr>)))"

text \<open>
  \<open>get_response\<close>: an \<open>if\<close>/\<open>elif\<close> on the mode given to \<open>__init__\<close>, with no \<open>else\<close>; the
  function then ends without a \<open>return\<close>, which yields Python's \<open>None\<close> (the inner
  \<open>None\<close> here).
\<close>

definition get_response :: "'m libraries \<Rightarrow> string \<Rightarrow> 'm \<Rightarrow> pyexc + inference_result option" where
  "get_response lib mode messages =
     (if mode = ''colab'' then get_response_colab lib messages
      else if mode = ''gcp'' then get_response_gcp lib messages
      else Inr None)"

section \<open>BotPostsService.generate_bot_post\<close>

text \<open>
  The errors a caller of the service can see: the two classes of \<open>utils.error_handler\<close>,
  both raised without arguments, and any other exception.
\<close>

datatype error =
    InvalidQueryParameterError
  | InternalServerError
  | PyError pyexc

text \<open>
  \<open>clean_response\<close> as line 112 calls it, on whatever \<open>model_response.get("content", "")\<close>
  gave. Only a \<open>str\<close> gets through: \<open>':' in text\<close> raises on a value that is not a
  container; on a list or dict it is a membership test, after which \<open>text.split\<close> or
  \<open>re.sub\<close> raises.
\<close>

definition not_iterable :: "json \<Rightarrow> pyexc" where
  "not_iterable v =
     PyExc ''TypeError''
       (ascii ''argument of type '' @ QUOTE # ascii (type_name v) @ QUOTE # ascii '' is not iterable'')"

definition no_split_or_not_str :: "bool \<Rightarrow> json \<Rightarrow> pyexc" where
  "no_split_or_not_str has_colon v =
     (if has_colon then
        PyExc ''AttributeError''
          (QUOTE # ascii (type_name v) @ QUOTE # ascii '' object has no attribute '' @
           QUOTE # ascii ''split'' @ [QUOTE])
      else
        PyExc ''TypeError''
          (ascii ''expected string or bytes-like object, got '' @ QUOTE # ascii (type_name v) @ [QUOTE]))"

fun clean_response_dyn :: "json \<Rightarrow> pyexc + str" where
  "clean_response_dyn (JStr s) = Inr (clean_response s)"
| "clean_response_dyn (JArr xs) = Inl (no_split_or_not_str (JStr [COLON] \<in> set xs) (JArr xs))"
| "clean_response_dyn (JObj kvs) = Inl (no_split_or_not_str ([COLON] \<in> fst ` set kvs) (JObj kvs))"
| "clean_response_dyn v = Inl (not_iterable v)"

text \<open>
  Objects that the service only passes along (a post, the board type, the prompt client,
  the messages, the bot user, a sampling parameter) have the opaque type \<open>'o\<close>.
\<close>

record 'o bot_posts_request =
  board_type :: 'o
  posts :: "'o list"

text \<open>
  \<open>BotPostsResponse\<close> with its \<open>BotPostResponseData\<close> flattened. The schema classes only
  hold these fields; their own validation belongs to the schema layer.
\<close>

record 'o bot_posts_response =
  message :: str
  data_board_type :: 'o
  data_user :: 'o
  data_content :: str

text \<open>
  A call that reaches the observability sink, with the arguments the code gives it.
  Timestamps and durations are left out; \<open>input_tokens\<close>, \<open>output_tokens\<close> and \<open>error\<close>
  of a logged inference are always \<open>None\<close> in the code.
  \<^item> \<open>TraceOpen board_type post_count input environment\<close>: lines 51-59;
  \<^item> \<open>UpdateInvalid\<close>: lines 64-68, with its three literal arguments;
  \<^item> \<open>LogInference name prompt messages content model_name model_parameters\<close>:
    \<open>log_inference_to_langfuse\<close>, lines 93 and 115;
  \<^item> \<open>UpdateOutput content\<close>: line 135;
  \<^item> \<open>UpdateFailure e messages original_content cleaned_content\<close>: lines 156-165, where
    \<open>error\<close> and \<open>error_type\<close> are the text and the class name of \<open>e\<close>, and a local
    variable not yet bound is recorded as \<open>None\<close>.
\<close>

datatype 'o event =
    TraceOpen 'o nat "'o list" string
  | UpdateInvalid
  | LogInference string 'o 'o json 'o "(string \<times> 'o) list"
  | UpdateOutput str
  | UpdateFailure error "'o option" "json option" "str option"

text \<open>
  What the service is built on, each as the outcome of the call (\<open>Inl\<close> or \<open>Some\<close>: it
  raises):
  \<^item> \<open>mode\<close>: \<open>self.mode\<close>;
  \<^item> \<open>sink ev\<close>: the Langfuse call \<open>ev\<close>;
  \<^item> \<open>loader_attr a\<close>: reading \<open>self.model.loader.a\<close>;
  \<^item> \<open>get_bot_user_info\<close>: \<open>BotPostsPrompt()\<close> followed by \<open>get_bot_user_info()\<close>;
  \<^item> \<open>json_to_messages posts mode\<close>: the prompt client and the messages;
  \<^item> \<open>model_get_response messages\<close>: \<open>self.model.get_response(messages, ...)\<close>;
  \<^item> \<open>user_info_response bot_user\<close>: \<open>UserInfoResponse(**bot_user)\<close>;
  \<^item> \<open>stdout_value label v\<close>: \<open>print(f"{label}{v}")\<close> for a value whose rendering has
    a code point outside ASCII, which the encoding of the standard output may refuse.
\<close>

record 'o collaborators =
  mode :: string
  sink :: "'o event \<Rightarrow> error option"
  loader_attr :: "string \<Rightarrow> error + 'o"
  get_bot_user_info :: "error + 'o"
  json_to_messages :: "'o list \<Rightarrow> string \<Rightarrow> error + 'o \<times> 'o"
  model_get_response :: "'o \<Rightarrow> error + inference_result option"
  user_info_response :: "'o \<Rightarrow> error + 'o"
  stdout_value :: "string \<Rightarrow> json \<Rightarrow> error option"

text \<open>
  The rendering of a value in an f-string is ASCII when every \<open>str\<close> in it is: the text
  of a \<open>str\<close> itself, \<open>None\<close>, \<open>True\<close>, \<open>False\<close>, a number, and for a list or dict the
  \<open>repr\<close> of its parts.
\<close>

fun renders_ascii :: "json \<Rightarrow> bool" where
  "renders_ascii (JStr s) = ascii_only s"
| "renders_ascii (JArr xs) = list_all renders_ascii xs"
| "renders_ascii (JObj kvs) = list_all (\<lambda>kv. ascii_only (fst kv) \<and> renders_ascii (snd kv)) kvs"
| "renders_ascii v = True"

text \<open>
  \<open>print(f"{label}{v}")\<close>, lines 108 and 131, under the same reading of the standard
  output as in the loader: an ASCII line is written, any other line has the outcome of
  the output. Lines 109 and 132 print a duration, which is ASCII, and are left out.
\<close>

definition print_value :: "'o collaborators \<Rightarrow> string \<Rightarrow> json \<Rightarrow> error + unit" where
  "print_value co label v =
     (if renders_ascii v then Inr ()
      else (case stdout_value co label v of Some e \<Rightarrow> Inl e | None \<Rightarrow> Inr ()))"

text \<open>A sink call: the event is appended to those sent so far unless the call raises.\<close>

definition emit :: "'o collaborators \<Rightarrow> 'o event \<Rightarrow> 'o event list \<Rightarrow> error + 'o event list" where
  "emit co ev sent = (case sink co ev of Some e \<Rightarrow> Inl e | None \<Rightarrow> Inr (sent @ [ev]))"

text \<open>Lines 72-77: the dict display reads the four attributes in order.\<close>

fun read_attrs :: "'o collaborators \<Rightarrow> string list \<Rightarrow> error + (string \<times> 'o) list" where
  "read_attrs co [] = Inr []"
| "read_attrs co (a # as) =
     (case loader_attr co a of
        Inl e \<Rightarrow> Inl e
      | Inr v \<Rightarrow> (case read_attrs co as of Inl e \<Rightarrow> Inl e | Inr vs \<Rightarrow> Inr ((a, v) # vs)))"

text \<open>
  The local variables that the generic handler looks up with \<open>in locals()\<close>, and the sink
  calls made so far.
\<close>

record 'o locals =
  sent :: "'o event list"
  messages :: "'o option"
  original_content :: "json option"
  cleaned_content :: "str option"

text \<open>\<open>None.get\<close>, when \<open>get_response\<close> gave no result.\<close>

definition none_has_no_get :: error where
  "none_has_no_get =
     PyError (PyExc ''AttributeError''
       (QUOTE # ascii ''NoneType'' @ QUOTE # ascii '' object has no attribute '' @
        QUOTE # ascii ''get'' @ [QUOTE]))"

definition post_written :: str where
  "post_written =
     [0xC18C, 0xC15C, 0xBD07, 0xC774, 0x20, 0xAC8C, 0xC2DC, 0xBB3C, 0xC744, 0x20,
      0xC791, 0xC131, 0xD588, 0xC2B5, 0xB2C8, 0xB2E4, 0x2E]"

text \<open>
  One statement of the \<open>try\<close> body that may raise, followed by the rest of the body: an
  exception ends the body with the local variables bound so far.
\<close>

definition step :: "error + 'a \<Rightarrow> 'l \<Rightarrow> ('a \<Rightarrow> (error + 'b) \<times> 'l) \<Rightarrow> (error + 'b) \<times> 'l" where
  "step outcome L rest = (case outcome of Inl e \<Rightarrow> (Inl e, L) | Inr v \<Rightarrow> rest v)"

definition lift_py :: "pyexc + 'a \<Rightarrow> error + 'a" where
  "lift_py outcome = (case outcome of Inl e \<Rightarrow> Inl (PyError e) | Inr v \<Rightarrow> Inr v)"

text \<open>Line 91: \<open>model_response.get("content", "")\<close>.\<close>

definition get_content :: "inference_result option \<Rightarrow> error + json" where
  "get_content model_response =
     (case model_response of
        None \<Rightarrow> Inl none_has_no_get
      | Some r \<Rightarrow> Inr (case content r of Some c \<Rightarrow> c | None \<Rightarrow> JStr []))"

text \<open>Lines 91-147: from the result of the backend to the response.\<close>

definition after_inference ::
  "'o collaborators \<Rightarrow> 'o bot_posts_request \<Rightarrow> (string \<times> 'o) list \<Rightarrow> 'o \<Rightarrow> 'o \<Rightarrow> 'o \<Rightarrow>
   inference_result option \<Rightarrow> 'o locals \<Rightarrow> (error + 'o bot_posts_response) \<times> 'o locals" where
  "after_inference co request log_model_parameters bot_user prompt_client msgs model_response L1 =
     step (get_content model_response) L1 (\<lambda>original.
     let L2 = L1\<lparr>original_content := Some original\<rparr> in
     step (loader_attr co ''model_path'') L2 (\<lambda>model_path.
     step (emit co (LogInference ''generate_bot_post_original'' prompt_client msgs original
                      model_path log_model_parameters) (sent L2)) L2 (\<lambda>sent3.
     let L3 = L2\<lparr>sent := sent3\<rparr> in
     step (print_value co ''content : '' original) L3 (\<lambda>_.
     step (lift_py (clean_response_dyn original)) L3 (\<lambda>cleaned.
     let L4 = L3\<lparr>cleaned_content := Some cleaned\<rparr> in
     step (loader_attr co ''model_path'') L4 (\<lambda>model_path'.
     step (emit co (LogInference ''generate_bot_post_cleaned'' prompt_client msgs (JStr cleaned)
                      model_path' log_model_parameters) (sent L4)) L4 (\<lambda>sent5.
     let L5 = L4\<lparr>sent := sent5\<rparr> in
     step (print_value co ''cleaned content : '' (JStr cleaned)) L5 (\<lambda>_.
     step (emit co (UpdateOutput cleaned) (sent L5)) L5 (\<lambda>sent6.
     let L6 = L5\<lparr>sent := sent6\<rparr> in
     step (user_info_response co bot_user) L6 (\<lambda>user.
     (Inr \<lparr>message = post_written, data_board_type = board_type request,
           data_user = user, data_content = cleaned\<rparr>, L6)))))))))))"

text \<open>Lines 62-147: the body of the \<open>try\<close>, started with the calls already sent.\<close>

definition try_body ::
  "'o collaborators \<Rightarrow> 'o bot_posts_request \<Rightarrow> 'o event list \<Rightarrow>
   (error + 'o bot_posts_response) \<times> 'o locals" where
  "try_body co request sent0 =
     (let L0 = \<lparr>sent = sent0, messages = None, original_content = None, cleaned_content = None\<rparr> in
      if length (posts request) < 5 then
        step (emit co UpdateInvalid sent0) L0 (\<lambda>sent1.
        (Inl InvalidQueryParameterError, L0\<lparr>sent := sent1\<rparr>))
      else
        step (read_attrs co [''temperature'', ''top_p'', ''max_tokens'', ''stop'']) L0
          (\<lambda>log_model_parameters.
        step (get_bot_user_info co) L0 (\<lambda>bot_user.
        step (json_to_messages co (posts request) (mode co)) L0 (\<lambda>(prompt_client, msgs).
        let L1 = L0\<lparr>messages := Some msgs\<rparr> in
        step (model_get_response co msgs) L1 (\<lambda>model_response.
        after_inference co request log_model_parameters bot_user prompt_client msgs
          model_response L1)))))"

text \<open>Lines 149-166: the two handlers, on the outcome of the \<open>try\<close> body.\<close>

definition handlers ::
  "'o collaborators \<Rightarrow> (error + 'o bot_posts_response) \<times> 'o locals \<Rightarrow>
   (error + 'o bot_posts_response) \<times> 'o event list" where
  "handlers co outcome =
     (case outcome of
        (Inr response, L) \<Rightarrow> (Inr response, sent L)
      | (Inl e, L) \<Rightarrow>
          if e = InvalidQueryParameterError then (Inl e, sent L)
          else
            (case emit co (UpdateFailure e (messages L) (original_content L) (cleaned_content L))
                    (sent L) of
               Inl e' \<Rightarrow> (Inl e', sent L)
             | Inr sent' \<Rightarrow> (Inl InternalServerError, sent')))"

text \<open>
  \<open>generate_bot_post\<close>: what the caller gets, and the sink calls made, in order. The trace
  is opened at line 51, before the \<open>try\<close> of line 61.
\<close>

definition generate_bot_post ::
  "'o collaborators \<Rightarrow> 'o bot_posts_request \<Rightarrow> (error + 'o bot_posts_response) \<times> 'o event list" where
  "generate_bot_post co request =
     (case emit co (TraceOpen (board_type request) (length (posts request)) (posts request) (mode co)) [] of
        Inl e \<Rightarrow> (Inl e, [])
      | Inr sent0 \<Rightarrow> handlers co (try_body co request sent0))"

section \<open>BotChatsService.generate_bot_chat\<close>

record bot_chats_response =
  chat_status :: str
  chat_message :: str
  chat_content :: str

definition temporary_chat_message :: str where
  "temporary_chat_message =
     [0xC784, 0xC2DC, 0x20, 0xC18C, 0xC15C, 0xBD07, 0x20, 0xCC44, 0xD305, 0x20,
      0xBA54, 0xC2DC, 0xC9C0, 0xC785, 0xB2C8, 0xB2E4, 0x2E]"

text \<open>
  Lines 17-34: the \<open>try\<close> block only returns a dict of literals (the call of the model is
  commented out), so its handler is never entered; \<open>request\<close> is not read.
\<close>

definition generate_bot_chat :: "'r \<Rightarrow> error + bot_chats_response" where
  "generate_bot_chat request =
     Inr \<lparr>chat_status = ascii ''success'',
          chat_message = ascii ''Bot chat message generated successfully'',
          chat_content = temporary_chat_message\<rparr>"

section \<open>Auxiliary definitions\<close>

text \<open>
  The shape of a text after \<open>sub_spaces\<close>: its only whitespace is the space, and no two
  spaces are adjacent.
\<close>

fun tidy :: "str \<Rightarrow> bool" where
  "tidy [] = True"
| "tidy (c # cs) =
     (if is_space c then c = SPACE \<and> (cs = [] \<or> \<not> is_space (hd cs)) \<and> tidy cs
      else tidy cs)"

text \<open>The first sink call of every request.\<close>

abbreviation opened :: "'o collaborators \<Rightarrow> 'o bot_posts_request \<Rightarrow> 'o event" where
  "opened co request \<equiv>
     TraceOpen (board_type request) (length (posts request)) (posts request) (mode co)"

text \<open>Stubs for concrete runs.\<close>

definition stub_result :: "str \<Rightarrow> inference_result" where
  "stub_result c =
     \<lparr>status_code = 200, url = ''local_vllm'', headers = None, content = Some (JStr c), error = None\<rparr>"

definition stub_collaborators :: "inference_result option \<Rightarrow> nat collaborators" where
  "stub_collaborators r =
     \<lparr>mode = ''gcp'', sink = (\<lambda>ev. None), loader_attr = (\<lambda>a. Inr 14),
      get_bot_user_info = Inr 11, json_to_messages = (\<lambda>ps m. Inr (12, 13)),
      model_get_response = (\<lambda>msgs. Inr r), user_info_response = (\<lambda>u. Inr u),
      stdout_value = (\<lambda>label v. None)\<rparr>"

definition stub_request :: "nat list \<Rightarrow> nat bot_posts_request" where
  "stub_request ps = \<lparr>board_type = 7, posts = ps\<rparr>"

definition connection_error :: pyexc where
  "connection_error = PyExc ''ConnectionError'' (ascii ''Connection refused'')"

definition stub_libraries :: "pyexc + http_response \<Rightarrow> pyexc + str list list \<Rightarrow> nat libraries" where
  "stub_libraries posted generated =
     \<lparr>base_url = Inr (Some ''http://model''), post = (\<lambda>u m. posted),
      chat_template = (\<lambda>m. Inr (ascii ''prompt'')), generate = (\<lambda>p. generated),
      stdout_line = (\<lambda>s. None)\<rparr>"



definition refuse_update :: "nat event \<Rightarrow> error option" where
  "refuse_update ev = (case ev of UpdateInvalid \<Rightarrow> Some (PyError connection_error) | _ \<Rightarrow> None)"

definition refuse_open :: "nat event \<Rightarrow> error option" where
  "refuse_open ev = (case ev of TraceOpen b n ps m \<Rightarrow> Some (PyError connection_error) | _ \<Rightarrow> None)"

definition failed_result :: inference_result where
  "failed_result =
     \<lparr>status_code = 502, url = ''http://model/v1/chat/completions'', headers = Some [],
      content = None, error = Some (JStr (ascii ''Bad Gateway''))\<rparr>"

definition failing_backend :: "nat collaborators" where
  "failing_backend =
     (stub_collaborators None)\<lparr>model_get_response := (\<lambda>msgs. Inl (PyError connection_error))\<rparr>"

definition failing_update :: "nat collaborators" where
  "failing_update = (stub_collaborators None)\<lparr>sink := refuse_update\<rparr>"

definition failing_sink :: "nat collaborators" where
  "failing_sink = (stub_collaborators None)\<lparr>sink := refuse_open\<rparr>"

section \<open>Lemmas on cleaning\<close>

lemmas ev = clean_response_def split_first_colon_def strip_def is_space_def ascii_def

lemma is_space_SPACE: "is_space SPACE"
  by (simp add: is_space_def)

lemma sub_spaces_hd: "cs \<noteq> [] \<Longrightarrow> \<not> is_space (hd cs) \<Longrightarrow> hd (sub_spaces cs) = hd cs \<and> sub_spaces cs \<noteq> []"
  by (cases cs) auto

lemma sub_spaces_Nil_iff: "sub_spaces cs = [] \<longleftrightarrow> cs = []"
  by (cases cs) auto

lemma tidy_sub_spaces: "tidy (sub_spaces t)"
proof (induction t rule: sub_spaces.induct)
  case 1
  show ?case by simp
next
  case (2 c cs)
  show ?case
  proof (cases "is_space c")
    case True
    let ?r = "dropWhile is_space cs"
    have "?r = [] \<or> \<not> is_space (hd ?r)"
      using hd_dropWhile [of is_space cs] by blast
    then have "sub_spaces ?r = [] \<or> \<not> is_space (hd (sub_spaces ?r))"
      by (metis sub_spaces_hd sub_spaces.simps(1))
    with True 2 show ?thesis by (simp add: is_space_SPACE)
  next
    case False
    with 2 show ?thesis by simp
  qed
qed

lemma sub_spaces_tidy: "tidy u \<Longrightarrow> sub_spaces u = u"
proof (induction u)
  case Nil
  show ?case by simp
next
  case (Cons c cs)
  show ?case
  proof (cases "is_space c")
    case True
    with Cons.prems have c: "c = SPACE" and h: "cs = [] \<or> \<not> is_space (hd cs)" and t: "tidy cs"
      by auto
    from h have "dropWhile is_space cs = cs" by (cases cs) auto
    with True c Cons.IH [OF t] show ?thesis by simp
  next
    case False
    with Cons show ?thesis by simp
  qed
qed

lemma tidy_dropWhile: "tidy u \<Longrightarrow> tidy (dropWhile P u)"
  by (induction u) (auto split: if_splits)

lemma tidy_append_left: "tidy (xs @ ys) \<Longrightarrow> tidy xs"
proof (induction xs)
  case Nil
  show ?case by simp
next
  case (Cons c cs)
  then show ?case by (cases cs) (auto split: if_splits)
qed

lemma rev_dropWhile_rev_prefix: "rev (dropWhile P (rev v)) @ rev (takeWhile P (rev v)) = v"
proof -
  have "rev (takeWhile P (rev v) @ dropWhile P (rev v)) = v" by simp
  then show ?thesis by (simp only: rev_append)
qed

lemma tidy_strip: "tidy u \<Longrightarrow> tidy (strip u)"
proof -
  assume "tidy u"
  then have "tidy (dropWhile is_space u)" by (rule tidy_dropWhile)
  then have "tidy (rev (dropWhile is_space (rev (dropWhile is_space u))) @
                   rev (takeWhile is_space (rev (dropWhile is_space u))))"
    by (simp only: rev_dropWhile_rev_prefix)
  then show ?thesis unfolding strip_def by (rule tidy_append_left)
qed

lemma strip_trimmed: "w = [] \<or> (\<not> is_space (hd w) \<and> \<not> is_space (last w)) \<Longrightarrow> strip w = w"
proof (cases w)
  case Nil
  then show ?thesis by (simp add: strip_def)
next
  case (Cons a as)
  assume "w = [] \<or> (\<not> is_space (hd w) \<and> \<not> is_space (last w))"
  with Cons have h: "\<not> is_space (hd w)" and l: "\<not> is_space (last w)" by auto
  from h Cons have 1: "dropWhile is_space w = w" by simp
  from Cons have "rev w \<noteq> []" by simp
  moreover from Cons have "w \<noteq> []" by simp
  then have "hd (rev w) = last w" by (simp add: hd_rev)
  with l have "\<not> is_space (hd (rev w))" by simp
  ultimately have "dropWhile is_space (rev w) = rev w" by (cases "rev w") auto
  with 1 show ?thesis by (simp add: strip_def)
qed

lemma strip_ends: "strip u = [] \<or> (\<not> is_space (hd (strip u)) \<and> \<not> is_space (last (strip u)))"
proof (cases "strip u = []")
  case True
  then show ?thesis by simp
next
  case False
  let ?s = "dropWhile is_space u"
  let ?d = "dropWhile is_space (rev ?s)"
  from False have d: "?d \<noteq> []" by (simp add: strip_def)
  then have "\<not> is_space (hd ?d)" using hd_dropWhile [of is_space "rev ?s"] by blast
  with d have l: "\<not> is_space (last (strip u))" by (simp add: strip_def last_rev)
  have pre: "strip u @ rev (takeWhile is_space (rev ?s)) = ?s"
    unfolding strip_def by (rule rev_dropWhile_rev_prefix)
  with False have "hd (strip u) = hd ?s" by (metis hd_append2)
  moreover from pre False have "?s \<noteq> []" by (metis append_is_Nil_conv)
  then have "\<not> is_space (hd ?s)" using hd_dropWhile [of is_space u] by blast
  ultimately show ?thesis using l by simp
qed

lemma strip_strip: "strip (strip u) = strip u"
  by (rule strip_trimmed) (rule strip_ends)

lemma ws_fixed: "strip (sub_spaces (strip (sub_spaces t))) = strip (sub_spaces t)"
  by (simp add: sub_spaces_tidy tidy_strip tidy_sub_spaces strip_strip)

lemma length_strip: "length (strip t) \<le> length t"
proof -
  have "length (strip t) \<le> length (dropWhile is_space t)"
    unfolding strip_def by (simp only: length_rev) (metis length_dropWhile_le length_rev)
  also have "\<dots> \<le> length t" by (rule length_dropWhile_le)
  finally show ?thesis .
qed

lemma length_sub_spaces: "length (sub_spaces t) \<le> length t"
proof (induction t rule: sub_spaces.induct)
  case 1
  show ?case by simp
next
  case (2 c cs)
  show ?case
  proof (cases "is_space c")
    case True
    with 2 have "length (sub_spaces (dropWhile is_space cs)) \<le> length (dropWhile is_space cs)"
      by simp
    also have "\<dots> \<le> length cs" by (rule length_dropWhile_le)
    finally show ?thesis using True by simp
  next
    case False
    with 2 show ?thesis by simp
  qed
qed

lemma length_sub_brackets: "length (sub_brackets t) \<le> length t"
proof (induction t rule: sub_brackets.induct)
  case 1
  show ?case by simp
next
  case (2 c cs)
  show ?case
  proof (cases "c = LBRACKET")
    case True
    show ?thesis
    proof (cases "bracket_end cs")
      case None
      with True 2 show ?thesis by simp
    next
      case (Some r)
      with True 2 have "length (sub_brackets r) \<le> length r" by simp
      with bracket_end_length [OF Some] True Some show ?thesis by simp
    qed
  next
    case False
    with 2 show ?thesis by simp
  qed
qed

lemma sub_brackets_changed: "sub_brackets t \<noteq> t \<Longrightarrow> length (sub_brackets t) < length t"
proof (induction t rule: sub_brackets.induct)
  case 1
  then show ?case by simp
next
  case (2 c cs)
  show ?case
  proof (cases "c = LBRACKET")
    case True
    show ?thesis
    proof (cases "bracket_end cs")
      case None
      with True 2 show ?thesis by simp
    next
      case (Some r)
      have "length (sub_brackets r) \<le> length r" by (rule length_sub_brackets)
      with bracket_end_length [OF Some] True Some show ?thesis by simp
    qed
  next
    case False
    with 2 show ?thesis by simp
  qed
qed

lemma split_first_colon_none: "COLON \<notin> set t \<Longrightarrow> split_first_colon t = t"
  by (simp add: split_first_colon_def)

lemma split_first_colon_length: "COLON \<in> set t \<Longrightarrow> length (split_first_colon t) < length t"
proof -
  assume c: "COLON \<in> set t"
  then have ne: "dropWhile (\<lambda>c. c \<noteq> COLON) t \<noteq> []" by simp
  then have "length (tl (dropWhile (\<lambda>c. c \<noteq> COLON) t)) < length (dropWhile (\<lambda>c. c \<noteq> COLON) t)"
    by (cases "dropWhile (\<lambda>c. c \<noteq> COLON) t") auto
  also have "\<dots> \<le> length t" by (rule length_dropWhile_le)
  finally show ?thesis using c by (simp add: split_first_colon_def)
qed

lemma length_clean_le: "length (clean_response t) \<le> length (sub_brackets (split_first_colon t))"
  unfolding clean_response_def
  using length_strip [of "sub_spaces (sub_brackets (split_first_colon t))"]
        length_sub_spaces [of "sub_brackets (split_first_colon t)"]
  by linarith

lemma clean_fixed_iff:
  "clean_response y = y \<longleftrightarrow>
     COLON \<notin> set y \<and> sub_brackets y = y \<and> strip (sub_spaces y) = y"
proof
  assume eq: "clean_response y = y"
  have le: "length (clean_response y) \<le> length (sub_brackets (split_first_colon y))"
    by (rule length_clean_le)
  have le2: "length (sub_brackets (split_first_colon y)) \<le> length (split_first_colon y)"
    by (rule length_sub_brackets)
  have c: "COLON \<notin> set y"
  proof
    assume "COLON \<in> set y"
    then have "length (split_first_colon y) < length y" by (rule split_first_colon_length)
    with le le2 eq show False by simp
  qed
  then have s: "split_first_colon y = y" by (rule split_first_colon_none)
  have b: "sub_brackets y = y"
  proof (rule ccontr)
    assume "sub_brackets y \<noteq> y"
    then have "length (sub_brackets y) < length y" by (rule sub_brackets_changed)
    with le s eq show False by simp
  qed
  from eq s b have "strip (sub_spaces y) = y" by (simp add: clean_response_def)
  with c b show "COLON \<notin> set y \<and> sub_brackets y = y \<and> strip (sub_spaces y) = y" by simp
next
  assume "COLON \<notin> set y \<and> sub_brackets y = y \<and> strip (sub_spaces y) = y"
  then show "clean_response y = y"
    by (simp add: clean_response_def split_first_colon_none)
qed

section \<open>Lemmas on the pipeline\<close>

lemma read_attrs_ok: "(\<And>a. loader_attr co a = Inr (attr a)) \<Longrightarrow> read_attrs co as = Inr (map (\<lambda>a. (a, attr a)) as)"
  by (induction as) simp_all

lemma step_Inr: "step (Inr v) L rest = rest v"
  by (simp add: step_def)

lemma step_Inl: "step (Inl e) L rest = (Inl e, L)"
  by (simp add: step_def)

lemma emit_accepted: "sink co ev = None \<Longrightarrow> emit co ev evs = Inr (evs @ [ev])"
  by (simp add: emit_def)

lemma emit_refused: "sink co ev = Some e \<Longrightarrow> emit co ev evs = Inl e"
  by (simp add: emit_def)

lemma after_inference_ok:
  assumes sink: "\<And>ev. sink co ev = None"
    and attr: "\<And>a. loader_attr co a = Inr (attr a)"
    and orig: "get_content model_response = Inr original"
    and clean: "clean_response_dyn original = Inr cleaned"
    and user: "user_info_response co bot_user = Inr user"
    and shown: "print_value co ''content : '' original = Inr ()"
      "print_value co ''cleaned content : '' (JStr cleaned) = Inr ()"
  shows "after_inference co request params bot_user prompt_client msgs model_response L1 =
     (Inr \<lparr>message = post_written, data_board_type = board_type request,
           data_user = user, data_content = cleaned\<rparr>,
      L1\<lparr>original_content := Some original, cleaned_content := Some cleaned,
         sent := sent L1 @
           [LogInference ''generate_bot_post_original'' prompt_client msgs original
              (attr ''model_path'') params,
            LogInference ''generate_bot_post_cleaned'' prompt_client msgs (JStr cleaned)
              (attr ''model_path'') params,
            UpdateOutput cleaned]\<rparr>)"
  unfolding after_inference_def
  by (simp add: orig attr clean user shown step_Inr emit_accepted [OF sink] lift_py_def Let_def)

lemma healthy_run:
  assumes sink: "\<And>ev. sink co ev = None"
    and attr: "\<And>a. loader_attr co a = Inr (attr a)"
    and len: "5 \<le> length (posts request)"
    and bot: "get_bot_user_info co = Inr bot_user"
    and prompt: "json_to_messages co (posts request) (mode co) = Inr (prompt_client, msgs)"
    and resp: "model_get_response co msgs = Inr model_response"
    and orig: "get_content model_response = Inr original"
    and clean: "clean_response_dyn original = Inr cleaned"
    and user: "user_info_response co bot_user = Inr user"
    and shown: "print_value co ''content : '' original = Inr ()"
      "print_value co ''cleaned content : '' (JStr cleaned) = Inr ()"
  shows "generate_bot_post co request =
     (Inr \<lparr>message = post_written, data_board_type = board_type request,
           data_user = user, data_content = cleaned\<rparr>,
      [opened co request,
       LogInference ''generate_bot_post_original'' prompt_client msgs original
         (attr ''model_path'') (map (\<lambda>a. (a, attr a)) [''temperature'', ''top_p'', ''max_tokens'', ''stop'']),
       LogInference ''generate_bot_post_cleaned'' prompt_client msgs (JStr cleaned)
         (attr ''model_path'') (map (\<lambda>a. (a, attr a)) [''temperature'', ''top_p'', ''max_tokens'', ''stop'']),
       UpdateOutput cleaned])"
proof -
  have "try_body co request [opened co request] =
     (Inr \<lparr>message = post_written, data_board_type = board_type request,
           data_user = user, data_content = cleaned\<rparr>,
      \<lparr>sent = [opened co request,
       LogInference ''generate_bot_post_original'' prompt_client msgs original
         (attr ''model_path'') (map (\<lambda>a. (a, attr a)) [''temperature'', ''top_p'', ''max_tokens'', ''stop'']),
       LogInference ''generate_bot_post_cleaned'' prompt_client msgs (JStr cleaned)
         (attr ''model_path'') (map (\<lambda>a. (a, attr a)) [''temperature'', ''top_p'', ''max_tokens'', ''stop'']),
       UpdateOutput cleaned], messages = Some msgs, original_content = Some original,
       cleaned_content = Some cleaned\<rparr>)"
    unfolding try_body_def Let_def
    using len
    by (simp add: attr bot prompt resp step_Inr
        after_inference_ok [of co attr, OF sink attr orig clean user shown])
  then show ?thesis
    by (simp add: generate_bot_post_def emit_accepted [OF sink] handlers_def)
qed

lemma emit_Inr: "emit co ev evs = Inr evs' \<Longrightarrow> evs' = evs @ [ev]"
  by (simp add: emit_def split: option.splits)

lemma after_inference_sent:
  "\<exists>rest. sent (snd (after_inference co request params bot_user prompt_client msgs model_response L1)) =
     sent L1 @ rest \<and> UpdateInvalid \<notin> set rest"
  unfolding after_inference_def Let_def step_def
  by (auto split: sum.splits dest!: emit_Inr)

lemma try_body_sent:
  "\<exists>rest. sent (snd (try_body co request sent0)) = sent0 @ rest \<and>
     (5 \<le> length (posts request) \<longrightarrow> UpdateInvalid \<notin> set rest)"
proof (cases "length (posts request) < 5")
  case True
  then show ?thesis
    unfolding try_body_def Let_def step_def
    by (auto split: sum.splits dest!: emit_Inr)
next
  case False
  have "\<exists>rest. sent (snd (after_inference co request params bot_user prompt_client msgs model_response
          \<lparr>sent = sent0, messages = Some msgs, original_content = None, cleaned_content = None\<rparr>)) =
     sent0 @ rest \<and> UpdateInvalid \<notin> set rest" for params bot_user prompt_client msgs model_response
    using after_inference_sent [of co request params bot_user prompt_client msgs model_response
          "\<lparr>sent = sent0, messages = Some msgs, original_content = None, cleaned_content = None\<rparr>"]
    by simp
  with False show ?thesis
    unfolding try_body_def Let_def step_def
    by (auto split: sum.splits prod.splits)
qed

lemma handlers_sent:
  "\<exists>rest. snd (handlers co (r, L)) = sent L @ rest \<and> UpdateInvalid \<notin> set rest"
  unfolding handlers_def
  by (auto split: sum.splits dest!: emit_Inr)

lemma handlers_result:
  assumes "\<And>e m oc cc. sink co (UpdateFailure e m oc cc) = None"
  shows "fst (handlers co outcome) \<in> {Inl InvalidQueryParameterError, Inl InternalServerError} \<union> range Inr"
  unfolding handlers_def
  by (auto simp: emit_def assms split: sum.splits prod.splits)

lemma generate_opened:
  "sink co (opened co request) = None \<Longrightarrow>
   generate_bot_post co request = handlers co (try_body co request [opened co request])"
  by (simp add: generate_bot_post_def emit_def)

lemma generate_not_opened:
  "sink co (opened co request) = Some e \<Longrightarrow> generate_bot_post co request = (Inl e, [])"
  by (simp add: generate_bot_post_def emit_def)

lemma rejected_run:
  assumes "length (posts request) < 5"
    and "sink co (opened co request) = None"
    and "sink co UpdateInvalid = None"
  shows "generate_bot_post co request =
           (Inl InvalidQueryParameterError, [opened co request, UpdateInvalid])"
  using assms
  by (simp add: generate_opened try_body_def step_def emit_def handlers_def)

lemma generate_sent:
  assumes "sink co (opened co request) = None"
  shows "\<exists>rest. snd (generate_bot_post co request) = opened co request # rest \<and>
           (5 \<le> length (posts request) \<longrightarrow> UpdateInvalid \<notin> set rest)"
proof -
  obtain r L where rl: "try_body co request [opened co request] = (r, L)"
    by (cases "try_body co request [opened co request]")
  from try_body_sent [of co request "[opened co request]"] rl
  obtain rest where 1: "sent L = [opened co request] @ rest"
    and 2: "5 \<le> length (posts request) \<longrightarrow> UpdateInvalid \<notin> set rest"
    by auto
  from handlers_sent [of co r L]
  obtain rest' where 3: "snd (handlers co (r, L)) = sent L @ rest'"
    and 4: "UpdateInvalid \<notin> set rest'"
    by auto
  from 1 3 have "snd (generate_bot_post co request) = opened co request # (rest @ rest')"
    by (simp add: generate_opened [OF assms] rl)
  moreover from 2 4 have "5 \<le> length (posts request) \<longrightarrow> UpdateInvalid \<notin> set (rest @ rest')"
    by simp
  ultimately show ?thesis by blast
qed

section \<open>Claims\<close>

text \<open>
  C1, as stated, fails: cleaning consumes one colon per pass, so a text with two colons
  still has one after the first pass and loses it in the second; and a bracket pair
  around a newline is left by the first pass (the dot does not match a newline), turned
  into a pair around a space, and removed by the second.
\<close>

theorem clean_not_idempotent:
  "clean_response (ascii ''a: b: c'') = ascii ''b: c'' \<and>
   clean_response (clean_response (ascii ''a: b: c'')) = ascii ''c'' \<and>
   clean_response [LBRACKET, NEWLINE, RBRACKET] = ascii ''[ ]'' \<and>
   clean_response (clean_response [LBRACKET, NEWLINE, RBRACKET]) = []"
  by (simp add: ev)

text \<open>
  C1, amended: a second cleaning pass changes nothing exactly when the cleaned text has
  no colon and no bracketed span left for the bracket rule; the whitespace rules never
  change a cleaned text.
\<close>

theorem clean_idempotent_iff:
  "clean_response (clean_response x) = clean_response x \<longleftrightarrow>
     COLON \<notin> set (clean_response x) \<and> sub_brackets (clean_response x) = clean_response x"
proof -
  have "strip (sub_spaces (clean_response x)) = clean_response x"
    unfolding clean_response_def by (rule ws_fixed)
  then show ?thesis using clean_fixed_iff [of "clean_response x"] by simp
qed

text \<open>C1, a run: one colon and one bracketed span, so the second pass is the identity.\<close>

theorem clean_idempotent_iff_witness:
  "clean_response (clean_response (ascii ''Role: hello [aside] world'')) =
   clean_response (ascii ''Role: hello [aside] world'')"
proof -
  have "COLON \<notin> set (clean_response (ascii ''Role: hello [aside] world'')) \<and>
        sub_brackets (clean_response (ascii ''Role: hello [aside] world'')) =
        clean_response (ascii ''Role: hello [aside] world'')"
    by (simp add: ev)
  then show ?thesis by (rule iffD2 [OF clean_idempotent_iff])
qed

text \<open>
  C7: the colon rule drops the text up to and including the first colon and nothing
  more, it is the identity on a text without a colon, and cleaning maps
  \<open>Role: hello world\<close> to \<open>hello world\<close>, \<open>a: b: c\<close> to \<open>b: c\<close> and \<open>already clean\<close> to
  itself.
\<close>

theorem colon_rule:
  "clean_response (ascii ''Role: hello world'') = ascii ''hello world'' \<and>
   clean_response (ascii ''a: b: c'') = ascii ''b: c'' \<and>
   (COLON \<notin> set a \<longrightarrow> split_first_colon (a @ COLON # b) = b) \<and>
   (COLON \<notin> set t \<longrightarrow> split_first_colon t = t) \<and>
   clean_response (ascii ''already clean'') = ascii ''already clean''"
proof -
  have "COLON \<notin> set a \<Longrightarrow> dropWhile (\<lambda>c. c \<noteq> COLON) (a @ COLON # b) = COLON # b"
    by (simp add: dropWhile_append3) blast
  then have "COLON \<notin> set a \<longrightarrow> split_first_colon (a @ COLON # b) = b"
    by (simp add: split_first_colon_def)
  moreover have "clean_response (ascii ''Role: hello world'') = ascii ''hello world''"
    by (simp add: ev)
  moreover have "clean_response (ascii ''a: b: c'') = ascii ''b: c''"
    by (simp add: ev)
  moreover have "clean_response (ascii ''already clean'') = ascii ''already clean''"
    by (simp add: ev)
  ultimately show ?thesis by (simp add: split_first_colon_none)
qed

text \<open>C7, a run of the two general parts of the colon rule.\<close>

theorem colon_rule_witness:
  "COLON \<notin> set (ascii ''Role'') \<and>
   split_first_colon (ascii ''Role'' @ COLON # ascii '' hello: world'') = ascii '' hello: world'' \<and>
   COLON \<notin> set (ascii ''already clean'') \<and>
   split_first_colon (ascii ''already clean'') = ascii ''already clean''"
proof -
  have 1: "COLON \<notin> set (ascii ''Role'')" by (simp add: ascii_def)
  have 2: "COLON \<notin> set (ascii ''already clean'')" by (simp add: ascii_def)
  from 1 2 colon_rule [of "ascii ''Role''" "ascii '' hello: world''" "ascii ''already clean''"]
  show ?thesis by simp
qed

text \<open>
  C9: \<open>generate_bot_chat\<close> returns the same placeholder response, with status
  \<open>success\<close>, for every request; no request is rejected.
\<close>

theorem chat_placeholder:
  "generate_bot_chat request =
     Inr \<lparr>chat_status = ascii ''success'',
          chat_message = ascii ''Bot chat message generated successfully'',
          chat_content = temporary_chat_message\<rparr> \<and>
   generate_bot_chat request = generate_bot_chat request'"
  by (simp add: generate_bot_chat_def)

text \<open>
  C10: with a mode that is neither \<open>colab\<close> nor \<open>gcp\<close>, \<open>get_response\<close> returns
  \<open>None\<close>, neither a result dict nor an exception, whatever the messages.
\<close>

theorem unknown_mode_returns_none:
  "m \<noteq> ''colab'' \<Longrightarrow> m \<noteq> ''gcp'' \<Longrightarrow> get_response lib m msgs = Inr None"
  by (simp add: get_response_def)

text \<open>C10, a run with the mode \<open>local\<close>.\<close>

theorem unknown_mode_returns_none_witness:
  "get_response (stub_libraries (Inl connection_error) (Inl connection_error)) ''local'' (0::nat) = Inr None"
  by (rule unknown_mode_returns_none) simp_all




text \<open>
  C6: with five prior posts, collaborators that all succeed and a backend whose result
  has the content \<open>Bot: I agree! [laughs]   Great point.\<close>, the response has the content
  \<open>I agree! Great point.\<close>.
\<close>

theorem end_to_end:
  assumes "length (posts request) = 5"
    and "\<And>ev. sink co ev = None"
    and "\<And>a. loader_attr co a = Inr (attr a)"
    and "get_bot_user_info co = Inr bot_user"
    and "json_to_messages co (posts request) (mode co) = Inr (prompt_client, msgs)"
    and "model_get_response co msgs = Inr (Some r)"
    and "content r = Some (JStr (ascii ''Bot: I agree! [laughs]   Great point.''))"
    and "user_info_response co bot_user = Inr user"
  shows "fst (generate_bot_post co request) =
           Inr \<lparr>message = post_written, data_board_type = board_type request, data_user = user,
                data_content = ascii ''I agree! Great point.''\<rparr>"
proof -
  have len: "5 \<le> length (posts request)" using assms(1) by simp
  have orig: "get_content (Some r) = Inr (JStr (ascii ''Bot: I agree! [laughs]   Great point.''))"
    by (simp add: get_content_def assms(7))
  have clean: "clean_response_dyn (JStr (ascii ''Bot: I agree! [laughs]   Great point.'')) =
                 Inr (ascii ''I agree! Great point.'')"
    by (simp add: ev)
  have shown: "print_value co ''content : '' (JStr (ascii ''Bot: I agree! [laughs]   Great point.'')) = Inr ()"
    "print_value co ''cleaned content : '' (JStr (ascii ''I agree! Great point.'')) = Inr ()"
    by (simp_all add: print_value_def ascii_only_def ascii_def)
  show ?thesis
    by (simp add: healthy_run [of co attr, OF assms(2) assms(3) len assms(4) assms(5) assms(6)
          orig clean assms(8) shown])
qed

text \<open>C6, a run with the stubs.\<close>

theorem end_to_end_witness:
  "fst (generate_bot_post
          (stub_collaborators (Some (stub_result (ascii ''Bot: I agree! [laughs]   Great point.''))))
          (stub_request [21, 22, 23, 24, 25])) =
     Inr \<lparr>message = post_written, data_board_type = 7, data_user = 11,
          data_content = ascii ''I agree! Great point.''\<rparr>"
proof -
  let ?co = "stub_collaborators (Some (stub_result (ascii ''Bot: I agree! [laughs]   Great point.'')))"
  have "fst (generate_bot_post ?co (stub_request [21, 22, 23, 24, 25])) =
     Inr \<lparr>message = post_written, data_board_type = board_type (stub_request [21, 22, 23, 24, 25]), data_user = 11,
          data_content = ascii ''I agree! Great point.''\<rparr>"
    by (rule end_to_end [of "stub_request [21, 22, 23, 24, 25]" ?co "\<lambda>a. 14" 11 12 13
          "stub_result (ascii ''Bot: I agree! [laughs]   Great point.'')" 11])
       (simp_all add: stub_collaborators_def stub_request_def stub_result_def)
  then show ?thesis by (simp add: stub_request_def)
qed

text \<open>
  C5: when the backend returns a result without \<open>content\<close> and every other collaborator
  succeeds, nothing is raised: \<open>original_content\<close> is the empty string, it is logged,
  cleaned to the empty string, logged again and set as output, and the response is built
  with empty content.
\<close>

theorem absent_content_flows_through:
  assumes "5 \<le> length (posts request)"
    and "\<And>ev. sink co ev = None"
    and "\<And>a. loader_attr co a = Inr (attr a)"
    and "get_bot_user_info co = Inr bot_user"
    and "json_to_messages co (posts request) (mode co) = Inr (prompt_client, msgs)"
    and "model_get_response co msgs = Inr (Some r)"
    and "content r = None"
    and "user_info_response co bot_user = Inr user"
  shows "generate_bot_post co request =
     (Inr \<lparr>message = post_written, data_board_type = board_type request, data_user = user,
           data_content = []\<rparr>,
      [opened co request,
       LogInference ''generate_bot_post_original'' prompt_client msgs (JStr [])
         (attr ''model_path'')
         (map (\<lambda>a. (a, attr a)) [''temperature'', ''top_p'', ''max_tokens'', ''stop'']),
       LogInference ''generate_bot_post_cleaned'' prompt_client msgs (JStr [])
         (attr ''model_path'')
         (map (\<lambda>a. (a, attr a)) [''temperature'', ''top_p'', ''max_tokens'', ''stop'']),
       UpdateOutput []])"
proof -
  have orig: "get_content (Some r) = Inr (JStr [])"
    by (simp add: get_content_def assms(7))
  have clean: "clean_response_dyn (JStr []) = Inr []"
    by (simp add: ev)
  have shown: "print_value co ''content : '' (JStr []) = Inr ()"
    "print_value co ''cleaned content : '' (JStr []) = Inr ()"
    by (simp_all add: print_value_def ascii_only_def)
  show ?thesis
    by (rule healthy_run [of co attr, OF assms(2) assms(3) assms(1) assms(4) assms(5) assms(6)
          orig clean assms(8) shown])
qed

text \<open>C5, a run on the failure result of a 502 response.\<close>

theorem absent_content_flows_through_witness:
  "fst (generate_bot_post (stub_collaborators (Some failed_result)) (stub_request [21, 22, 23, 24, 25])) =
     Inr \<lparr>message = post_written, data_board_type = 7, data_user = 11, data_content = []\<rparr>"
proof -
  let ?co = "stub_collaborators (Some failed_result)"
  have "generate_bot_post ?co (stub_request [21, 22, 23, 24, 25]) =
     (Inr \<lparr>message = post_written, data_board_type = board_type (stub_request [21, 22, 23, 24, 25]), data_user = 11,
           data_content = []\<rparr>,
      [opened ?co (stub_request [21, 22, 23, 24, 25]),
       LogInference ''generate_bot_post_original'' 12 13 (JStr []) 14
         (map (\<lambda>a. (a, 14)) [''temperature'', ''top_p'', ''max_tokens'', ''stop'']),
       LogInference ''generate_bot_post_cleaned'' 12 13 (JStr []) 14
         (map (\<lambda>a. (a, 14)) [''temperature'', ''top_p'', ''max_tokens'', ''stop'']),
       UpdateOutput []])"
    by (rule absent_content_flows_through [of "stub_request [21, 22, 23, 24, 25]" ?co "\<lambda>a. 14" 11 12 13 failed_result 11])
       (simp_all add: stub_collaborators_def stub_request_def failed_result_def)
  then show ?thesis by (simp add: stub_request_def)
qed

text \<open>
  C4, as stated, fails: the error update of line 64 is sent inside the \<open>try\<close> before
  the \<open>raise\<close> of line 69, so when the sink refuses that update a request with four
  prior posts ends in \<open>InternalServerError\<close>, not in \<open>InvalidQueryParameterError\<close>.
\<close>

theorem refused_update_hides_validation:
  "generate_bot_post failing_update (stub_request [21, 22, 23, 24]) =
     (Inl InternalServerError,
      [TraceOpen 7 4 [21, 22, 23, 24] ''gcp'',
       UpdateFailure (PyError connection_error) None None None])"
  by (simp add: generate_bot_post_def emit_def failing_update_def stub_collaborators_def
      refuse_update_def stub_request_def try_body_def step_def handlers_def)

text \<open>
  C4, amended: when the sink accepts the trace open and the error update that precede
  the raise, a request with fewer than five prior posts fails with
  \<open>InvalidQueryParameterError\<close>; with five or more the validation branch is not taken
  (its trace update is never sent), and when every later step succeeds, the two prints
  of the content included, the request ends in a response.
\<close>

theorem validation_gate:
  "(length (posts request) < 5 \<and> sink co (opened co request) = None \<and> sink co UpdateInvalid = None \<longrightarrow>
      generate_bot_post co request =
        (Inl InvalidQueryParameterError, [opened co request, UpdateInvalid])) \<and>
   (5 \<le> length (posts request) \<and> sink co (opened co request) = None \<longrightarrow>
      UpdateInvalid \<notin> set (snd (generate_bot_post co request))) \<and>
   (5 \<le> length (posts request) \<and> (\<forall>ev. sink co ev = None) \<and>
    (\<forall>a. loader_attr co a = Inr (attr a)) \<and> get_bot_user_info co = Inr bot_user \<and>
    json_to_messages co (posts request) (mode co) = Inr (prompt_client, msgs) \<and>
    model_get_response co msgs = Inr (Some r) \<and> content r = Some (JStr c) \<and>
    print_value co ''content : '' (JStr c) = Inr () \<and>
    print_value co ''cleaned content : '' (JStr (clean_response c)) = Inr () \<and>
    user_info_response co bot_user = Inr user \<longrightarrow>
      fst (generate_bot_post co request) =
        Inr \<lparr>message = post_written, data_board_type = board_type request, data_user = user,
             data_content = clean_response c\<rparr>)"
proof (intro conjI impI)
  assume "length (posts request) < 5 \<and> sink co (opened co request) = None \<and> sink co UpdateInvalid = None"
  then show "generate_bot_post co request =
        (Inl InvalidQueryParameterError, [opened co request, UpdateInvalid])"
    by (simp add: rejected_run)
next
  assume a: "5 \<le> length (posts request) \<and> sink co (opened co request) = None"
  then obtain rest where "snd (generate_bot_post co request) = opened co request # rest"
    and "UpdateInvalid \<notin> set rest"
    using generate_sent [of co request] by auto
  then show "UpdateInvalid \<notin> set (snd (generate_bot_post co request))" by simp
next
  assume a: "5 \<le> length (posts request) \<and> (\<forall>ev. sink co ev = None) \<and>
    (\<forall>a. loader_attr co a = Inr (attr a)) \<and> get_bot_user_info co = Inr bot_user \<and>
    json_to_messages co (posts request) (mode co) = Inr (prompt_client, msgs) \<and>
    model_get_response co msgs = Inr (Some r) \<and> content r = Some (JStr c) \<and>
    print_value co ''content : '' (JStr c) = Inr () \<and>
    print_value co ''cleaned content : '' (JStr (clean_response c)) = Inr () \<and>
    user_info_response co bot_user = Inr user"
  then have orig: "get_content (Some r) = Inr (JStr c)" by (simp add: get_content_def)
  have clean: "clean_response_dyn (JStr c) = Inr (clean_response c)" by simp
  from a have sink: "\<And>ev. sink co ev = None" and attr: "\<And>a. loader_attr co a = Inr (attr a)"
    and len: "5 \<le> length (posts request)" and bot: "get_bot_user_info co = Inr bot_user"
    and prompt: "json_to_messages co (posts request) (mode co) = Inr (prompt_client, msgs)"
    and resp: "model_get_response co msgs = Inr (Some r)"
    and user: "user_info_response co bot_user = Inr user"
    and shown: "print_value co ''content : '' (JStr c) = Inr ()"
      "print_value co ''cleaned content : '' (JStr (clean_response c)) = Inr ()"
    by simp_all
  show "fst (generate_bot_post co request) =
        Inr \<lparr>message = post_written, data_board_type = board_type request, data_user = user,
             data_content = clean_response c\<rparr>"
    by (simp add: healthy_run [of co attr, OF sink attr len bot prompt resp orig clean user shown])
qed

text \<open>C4, runs with four and with five prior posts.\<close>

theorem validation_gate_witness:
  "generate_bot_post (stub_collaborators (Some (stub_result (ascii ''ok'')))) (stub_request [21, 22, 23, 24]) =
     (Inl InvalidQueryParameterError, [TraceOpen 7 4 [21, 22, 23, 24] ''gcp'', UpdateInvalid]) \<and>
   UpdateInvalid \<notin> set (snd (generate_bot_post (stub_collaborators (Some (stub_result (ascii ''ok''))))
                                (stub_request [21, 22, 23, 24, 25]))) \<and>
   fst (generate_bot_post (stub_collaborators (Some (stub_result (ascii ''ok''))))
          (stub_request [21, 22, 23, 24, 25])) =
     Inr \<lparr>message = post_written, data_board_type = 7, data_user = 11, data_content = ascii ''ok''\<rparr>"
proof -
  let ?co = "stub_collaborators (Some (stub_result (ascii ''ok'')))"
  let ?four = "stub_request [21, 22, 23, 24]"
  let ?five = "stub_request [21, 22, 23, 24, 25]"
  note gate4 = validation_gate [of ?four ?co "\<lambda>a. 14" 11 12 13 "stub_result (ascii ''ok'')" "ascii ''ok''" 11]
  note gate5 = validation_gate [of ?five ?co "\<lambda>a. 14" 11 12 13 "stub_result (ascii ''ok'')" "ascii ''ok''" 11]
  have "length (posts ?four) < 5 \<and> sink ?co (opened ?co ?four) = None \<and> sink ?co UpdateInvalid = None"
    by (simp add: stub_collaborators_def stub_request_def)
  with gate4 have "generate_bot_post ?co ?four =
      (Inl InvalidQueryParameterError, [opened ?co ?four, UpdateInvalid])"
    by blast
  then have 1: "generate_bot_post ?co ?four =
      (Inl InvalidQueryParameterError, [TraceOpen 7 4 [21, 22, 23, 24] ''gcp'', UpdateInvalid])"
    by (simp add: stub_collaborators_def stub_request_def)
  have "5 \<le> length (posts ?five) \<and> sink ?co (opened ?co ?five) = None"
    by (simp add: stub_collaborators_def stub_request_def)
  with gate5 have 2: "UpdateInvalid \<notin> set (snd (generate_bot_post ?co ?five))"
    by blast
  have c: "clean_response (ascii ''ok'') = ascii ''ok''" by (simp add: ev)
  have "5 \<le> length (posts ?five) \<and> (\<forall>ev. sink ?co ev = None) \<and>
    (\<forall>a. loader_attr ?co a = Inr 14) \<and> get_bot_user_info ?co = Inr 11 \<and>
    json_to_messages ?co (posts ?five) (mode ?co) = Inr (12, 13) \<and>
    model_get_response ?co 13 = Inr (Some (stub_result (ascii ''ok''))) \<and>
    content (stub_result (ascii ''ok'')) = Some (JStr (ascii ''ok'')) \<and>
    print_value ?co ''content : '' (JStr (ascii ''ok'')) = Inr () \<and>
    print_value ?co ''cleaned content : '' (JStr (clean_response (ascii ''ok''))) = Inr () \<and>
    user_info_response ?co 11 = Inr 11"
    by (simp add: c stub_collaborators_def stub_request_def stub_result_def print_value_def
        ascii_only_def ascii_def)
  with gate5 have "fst (generate_bot_post ?co ?five) =
     Inr \<lparr>message = post_written, data_board_type = board_type ?five, data_user = 11,
          data_content = clean_response (ascii ''ok'')\<rparr>"
    by blast
  with c have 3: "fst (generate_bot_post ?co ?five) =
     Inr \<lparr>message = post_written, data_board_type = 7, data_user = 11, data_content = ascii ''ok''\<rparr>"
    by (simp add: stub_request_def)
  from 1 2 3 show ?thesis by blast
qed

text \<open>
  C3, as stated, fails at step 2: the trace is opened before the \<open>try\<close>, so an exception
  of that call reaches the caller as it is, not as \<open>InternalServerError\<close>, and nothing is
  recorded.
\<close>

theorem trace_open_failure_escapes:
  "generate_bot_post failing_sink (stub_request [21, 22, 23, 24, 25]) =
     (Inl (PyError connection_error), [])"
  by (simp add: generate_bot_post_def emit_def failing_sink_def stub_collaborators_def
      refuse_open_def stub_request_def)

text \<open>
  C3, amended: once the trace is open, an \<open>InvalidQueryParameterError\<close> raised in the
  \<open>try\<close> body is re-raised unchanged; any other exception \<open>e\<close> raised there is recorded
  in the trace with the local variables bound so far and, when the sink accepts that
  update, replaced by \<open>InternalServerError\<close>; so with a sink that accepts these calls the
  caller sees a response or one of the two error kinds and nothing else. An exception of
  the trace open itself reaches the caller unchanged.
\<close>

theorem failure_mapping:
  "(sink co (opened co request) = None \<and>
    try_body co request [opened co request] = (Inl InvalidQueryParameterError, L) \<longrightarrow>
      generate_bot_post co request = (Inl InvalidQueryParameterError, sent L)) \<and>
   (sink co (opened co request) = None \<and>
    try_body co request [opened co request] = (Inl e, L) \<and> e \<noteq> InvalidQueryParameterError \<and>
    sink co (UpdateFailure e (messages L) (original_content L) (cleaned_content L)) = None \<longrightarrow>
      generate_bot_post co request =
        (Inl InternalServerError,
         sent L @ [UpdateFailure e (messages L) (original_content L) (cleaned_content L)])) \<and>
   (sink co (opened co request) = None \<and>
    (\<forall>e' m oc cc. sink co (UpdateFailure e' m oc cc) = None) \<longrightarrow>
      fst (generate_bot_post co request) \<in>
        {Inl InvalidQueryParameterError, Inl InternalServerError} \<union> range Inr) \<and>
   (sink co (opened co request) = Some e \<longrightarrow> generate_bot_post co request = (Inl e, []))"
proof (intro conjI impI)
  assume "sink co (opened co request) = None \<and>
    try_body co request [opened co request] = (Inl InvalidQueryParameterError, L)"
  then show "generate_bot_post co request = (Inl InvalidQueryParameterError, sent L)"
    by (simp add: generate_opened handlers_def)
next
  assume "sink co (opened co request) = None \<and>
    try_body co request [opened co request] = (Inl e, L) \<and> e \<noteq> InvalidQueryParameterError \<and>
    sink co (UpdateFailure e (messages L) (original_content L) (cleaned_content L)) = None"
  then show "generate_bot_post co request =
        (Inl InternalServerError,
         sent L @ [UpdateFailure e (messages L) (original_content L) (cleaned_content L)])"
    by (simp add: generate_opened handlers_def emit_def)
next
  assume a: "sink co (opened co request) = None \<and>
    (\<forall>e' m oc cc. sink co (UpdateFailure e' m oc cc) = None)"
  then have "\<And>e' m oc cc. sink co (UpdateFailure e' m oc cc) = None" by blast
  then have "fst (handlers co (try_body co request [opened co request])) \<in>
        {Inl InvalidQueryParameterError, Inl InternalServerError} \<union> range Inr"
    by (rule handlers_result)
  with a show "fst (generate_bot_post co request) \<in>
        {Inl InvalidQueryParameterError, Inl InternalServerError} \<union> range Inr"
    by (simp add: generate_opened)
next
  assume "sink co (opened co request) = Some e"
  then show "generate_bot_post co request = (Inl e, [])" by (rule generate_not_opened)
qed

text \<open>
  C3, runs: a rejected request, a backend that raises, a backend that returns \<open>None\<close>,
  and a sink that refuses the trace open.
\<close>

theorem failure_mapping_witness:
  "generate_bot_post (stub_collaborators None) (stub_request [21, 22, 23, 24]) =
     (Inl InvalidQueryParameterError, [TraceOpen 7 4 [21, 22, 23, 24] ''gcp'', UpdateInvalid]) \<and>
   generate_bot_post failing_backend (stub_request [21, 22, 23, 24, 25]) =
     (Inl InternalServerError,
      [TraceOpen 7 5 [21, 22, 23, 24, 25] ''gcp'',
       UpdateFailure (PyError connection_error) (Some 13) None None]) \<and>
   fst (generate_bot_post (stub_collaborators None) (stub_request [21, 22, 23, 24, 25])) =
     Inl InternalServerError \<and>
   generate_bot_post failing_sink (stub_request [21, 22, 23, 24]) =
     (Inl (PyError connection_error), [])"
proof -
  let ?ok = "stub_collaborators None :: nat collaborators"
  let ?four = "stub_request [21, 22, 23, 24]"
  let ?five = "stub_request [21, 22, 23, 24, 25]"
  let ?L4 = "\<lparr>sent = [opened ?ok ?four, UpdateInvalid], messages = None,
              original_content = None, cleaned_content = None\<rparr> :: nat locals"
  let ?L5 = "\<lparr>sent = [opened failing_backend ?five], messages = Some 13,
              original_content = None, cleaned_content = None\<rparr> :: nat locals"
  have "sink ?ok (opened ?ok ?four) = None \<and>
        try_body ?ok ?four [opened ?ok ?four] = (Inl InvalidQueryParameterError, ?L4)"
    by (simp add: stub_collaborators_def stub_request_def try_body_def step_def emit_def)
  with failure_mapping [of ?ok ?four ?L4 "PyError connection_error"]
  have "generate_bot_post ?ok ?four = (Inl InvalidQueryParameterError, sent ?L4)"
    by blast
  then have 1: "generate_bot_post ?ok ?four =
     (Inl InvalidQueryParameterError, [TraceOpen 7 4 [21, 22, 23, 24] ''gcp'', UpdateInvalid])"
    by (simp add: stub_collaborators_def stub_request_def)
  have "sink failing_backend (opened failing_backend ?five) = None \<and>
        try_body failing_backend ?five [opened failing_backend ?five] =
          (Inl (PyError connection_error), ?L5) \<and>
        PyError connection_error \<noteq> InvalidQueryParameterError \<and>
        sink failing_backend (UpdateFailure (PyError connection_error) (messages ?L5)
          (original_content ?L5) (cleaned_content ?L5)) = None"
    by (simp add: failing_backend_def stub_collaborators_def stub_request_def try_body_def
        step_def)
  with failure_mapping [of failing_backend ?five ?L5 "PyError connection_error"]
  have "generate_bot_post failing_backend ?five =
        (Inl InternalServerError,
         sent ?L5 @ [UpdateFailure (PyError connection_error) (messages ?L5)
                       (original_content ?L5) (cleaned_content ?L5)])"
    by blast
  then have 2: "generate_bot_post failing_backend ?five =
     (Inl InternalServerError,
      [TraceOpen 7 5 [21, 22, 23, 24, 25] ''gcp'',
       UpdateFailure (PyError connection_error) (Some 13) None None])"
    by (simp add: failing_backend_def stub_collaborators_def stub_request_def)
  have "sink ?ok (opened ?ok ?five) = None \<and>
        (\<forall>e' m oc cc. sink ?ok (UpdateFailure e' m oc cc) = None)"
    by (simp add: stub_collaborators_def)
  with failure_mapping [of ?ok ?five ?L4 "PyError connection_error"]
  have "fst (generate_bot_post ?ok ?five) \<in>
        {Inl InvalidQueryParameterError, Inl InternalServerError} \<union> range Inr"
    by blast
  moreover have "fst (generate_bot_post ?ok ?five) = Inl InternalServerError"
    by (simp add: generate_bot_post_def emit_def stub_collaborators_def stub_request_def
        try_body_def step_def after_inference_def get_content_def none_has_no_get_def
        handlers_def)
  ultimately have 3: "fst (generate_bot_post ?ok ?five) = Inl InternalServerError" by simp
  have "sink failing_sink (opened failing_sink ?four) = Some (PyError connection_error)"
    by (simp add: failing_sink_def stub_collaborators_def refuse_open_def)
  with failure_mapping [of failing_sink ?four ?L4 "PyError connection_error"]
  have 4: "generate_bot_post failing_sink ?four = (Inl (PyError connection_error), [])"
    by blast
  from 1 2 3 4 show ?thesis by blast
qed




end
